theory Spec2Isabelle
  imports Main "HOL-Library.Word"
begin

section \<open>Machine integers\<close>

text \<open>
  The fixed-width integer types of the sources. \<open>int8_t\<close> and \<open>int\<close> values are words
  read with \<open>sint\<close>; unsigned ones are read with \<open>uint\<close> or \<open>unat\<close>.
\<close>

type_synonym u8 = "8 word"
type_synonym u16 = "16 word"
type_synonym u32 = "32 word"
type_synonym s8 = "8 word"
type_synonym c_int = "32 word"

section \<open>The bounded state holder (state\_machine.h, \<open>StateMachine<S, uint8_t>\<close>)\<close>

text \<open>
  \<^verbatim>\<open>template <int S, typename StateT = uint8_t> class StateMachine\<close> has the single
  private member \<open>state_\<close>. Classes deriving from it extend the record. A name cannot
  end in an underscore here, so the members \<open>state_\<close>, \<open>advertising_sid_\<close>,
  \<open>is_muted_\<close>, \<open>addr_\<close> and \<open>addr_type_\<close> are the fields \<open>state\<close>,
  \<open>advertising_sid\<close>, \<open>is_muted\<close>, \<open>addr\<close> and \<open>addr_type\<close>.
\<close>

record StateMachine =
  state :: u8

text \<open>\<^verbatim>\<open>StateMachine() : state_(std::numeric_limits<StateT>::min()) {}\<close>\<close>

definition numeric_limits_u8_min :: u8 where
  "numeric_limits_u8_min = 0"

text \<open>\<^verbatim>\<open>StateT GetState() const { return state_; }\<close>\<close>

definition StateMachine_GetState :: "'a StateMachine_scheme \<Rightarrow> u8" where
  "StateMachine_GetState m = state m"

text \<open>
  \<^verbatim>\<open>void SetState(StateT state) { if (state < S) { state_ = state; } }\<close>
  The template parameter \<open>S\<close> is an \<open>int\<close>; the \<open>uint8_t\<close> argument is promoted to
  \<open>int\<close> for the comparison, so the comparison is on \<open>uint state\<close>.
\<close>

definition StateMachine_SetState :: "int \<Rightarrow> u8 \<Rightarrow> 'a StateMachine_scheme \<Rightarrow> 'a StateMachine_scheme" where
  "StateMachine_SetState S new_state m =
     (if uint new_state < S then m\<lparr>state := new_state\<rparr> else m)"

section \<open>BroadcastStateMachine (state\_machine.h)\<close>

text \<open>The class constants.\<close>

definition kAdvSidUndefined :: u8 where
  "kAdvSidUndefined = 0xFF"

definition kPaIntervalMax :: u8 where
  "kPaIntervalMax = 0xA0"

definition kPaIntervalMin :: u8 where
  "kPaIntervalMin = 0x50"

definition kLeAudioBroadcastRegId :: u8 where
  "kLeAudioBroadcastRegId = 0x1"

definition kBroadcastAdvertisingType :: s8 where
  "kBroadcastAdvertisingType = 0x2"

text \<open>\<^verbatim>\<open>enum class Message : uint8_t { START = 0, SUSPEND, STOP }\<close>\<close>

datatype Message = START | SUSPEND | STOP

text \<open>
  \<^verbatim>\<open>enum class State : uint8_t { STOPPED = 0, CONFIGURING, CONFIGURED, ENABLING,
  DISABLING, STOPPING, STREAMING }\<close>
\<close>

datatype State = STOPPED | CONFIGURING | CONFIGURED | ENABLING | DISABLING | STOPPING | STREAMING

text \<open>\<^verbatim>\<open>static_cast<std::underlying_type<State>::type>(state)\<close>\<close>

fun State_to_underlying :: "State \<Rightarrow> u8" where
  "State_to_underlying STOPPED = 0"
| "State_to_underlying CONFIGURING = 1"
| "State_to_underlying CONFIGURED = 2"
| "State_to_underlying ENABLING = 3"
| "State_to_underlying DISABLING = 4"
| "State_to_underlying STOPPING = 5"
| "State_to_underlying STREAMING = 6"

text \<open>
  \<^verbatim>\<open>static_cast<State>(raw)\<close>. Every \<open>uint8_t\<close> is a value of the enumeration type,
  but only seven values are declared enumerators; a value that is none of them is
  \<open>None\<close> here.
\<close>

definition State_of_underlying :: "u8 \<Rightarrow> State option" where
  "State_of_underlying raw =
     (if raw = 0 then Some STOPPED
      else if raw = 1 then Some CONFIGURING
      else if raw = 2 then Some CONFIGURED
      else if raw = 3 then Some ENABLING
      else if raw = 4 then Some DISABLING
      else if raw = 5 then Some STOPPING
      else if raw = 6 then Some STREAMING
      else None)"

text \<open>\<^verbatim>\<open>STATE_COUNT = static_cast<...>(State::STREAMING) + 1\<close>\<close>

definition STATE_COUNT :: u8 where
  "STATE_COUNT = State_to_underlying STREAMING + 1"

text \<open>
  \<^verbatim>\<open>class BroadcastStateMachine : public StateMachine<7>\<close> with its protected members
  \<open>advertising_sid_\<close>, \<open>is_muted_\<close>, \<open>addr_\<close> and \<open>addr_type_\<close>. The declaration of
  \<open>RawAddress\<close> is not part of the sources; a device address is six bytes, held
  here as a 48-bit word.
\<close>

type_synonym RawAddress = "48 word"

text \<open>
  Modelled from the spec: \<open>RawAddress::kEmpty\<close>, whose declaration is missing; the
  spec calls it the empty/zero address.
\<close>

definition RawAddress_kEmpty :: RawAddress where
  "RawAddress_kEmpty = 0"

record BroadcastStateMachine = StateMachine +
  advertising_sid :: u8
  is_muted :: bool
  addr :: RawAddress
  addr_type :: u8

text \<open>
  \<^verbatim>\<open>BroadcastStateMachine() = default\<close>: the base constructor and the default member
  initialisers. The argument is the part of the object that a derived class adds.
\<close>

definition BroadcastStateMachine_ctor :: "'a \<Rightarrow> 'a BroadcastStateMachine_scheme" where
  "BroadcastStateMachine_ctor derived =
     \<lparr>state = numeric_limits_u8_min,
      advertising_sid = kAdvSidUndefined,
      is_muted = False,
      addr = RawAddress_kEmpty,
      addr_type = 0,
      \<dots> = derived\<rparr>"

text \<open>
  \<^verbatim>\<open>inline State GetState(void) const
    { return static_cast<State>(StateMachine::GetState()); }\<close>
\<close>

definition GetState :: "'a BroadcastStateMachine_scheme \<Rightarrow> State option" where
  "GetState m = State_of_underlying (StateMachine_GetState m)"

text \<open>
  \<^verbatim>\<open>void SetState(State state)
    { StateMachine::SetState(static_cast<std::underlying_type<State>::type>(state)); }\<close>
\<close>

definition SetState :: "State \<Rightarrow> 'a BroadcastStateMachine_scheme \<Rightarrow> 'a BroadcastStateMachine_scheme" where
  "SetState new_state m = StateMachine_SetState 7 (State_to_underlying new_state) m"

text \<open>\<^verbatim>\<open>virtual uint8_t GetAdvertisingSid() const { return advertising_sid_; }\<close>\<close>

definition GetAdvertisingSid :: "'a BroadcastStateMachine_scheme \<Rightarrow> u8" where
  "GetAdvertisingSid m = advertising_sid m"

text \<open>\<^verbatim>\<open>virtual uint8_t GetPaInterval() const { return kPaIntervalMax; }\<close>\<close>

definition GetPaInterval :: "'a BroadcastStateMachine_scheme \<Rightarrow> u8" where
  "GetPaInterval m = kPaIntervalMax"

text \<open>\<^verbatim>\<open>void SetMuted(bool muted) { is_muted_ = muted; }\<close>\<close>

definition SetMuted :: "bool \<Rightarrow> 'a BroadcastStateMachine_scheme \<Rightarrow> 'a BroadcastStateMachine_scheme" where
  "SetMuted muted m = m\<lparr>is_muted := muted\<rparr>"

text \<open>\<^verbatim>\<open>bool IsMuted() const { return is_muted_; }\<close>\<close>

definition IsMuted :: "'a BroadcastStateMachine_scheme \<Rightarrow> bool" where
  "IsMuted m = is_muted m"

text \<open>
  A sequence of calls of the raw \<open>StateMachine<7>::SetState\<close>, the only way a derived
  class can write the private \<open>state_\<close>.
\<close>

fun SetState_calls :: "u8 list \<Rightarrow> 'a BroadcastStateMachine_scheme \<Rightarrow> 'a BroadcastStateMachine_scheme" where
  "SetState_calls [] m = m"
| "SetState_calls (n # ns) m = SetState_calls ns (StateMachine_SetState 7 n m)"

section \<open>The data model of the broadcaster (state\_machine.h)\<close>

text \<open>\<^verbatim>\<open>struct BigConfig\<close>, field by field.\<close>

record BigConfig =
  status :: u8
  big_id :: u8
  big_sync_delay :: u32
  transport_latency_big :: u32
  phy :: u8
  nse :: u8
  bn :: u8
  pto :: u8
  irc :: u8
  max_pdu :: u16
  iso_interval :: u16
  connection_handles :: "u16 list"

text \<open>
  \<^verbatim>\<open>struct BroadcastStateMachineConfig\<close>. The types \<open>BroadcastConfiguration\<close>,
  \<open>PublicBroadcastAnnouncementData\<close> and \<open>BasicAudioAnnouncementData\<close> are declared
  outside the sources at hand and are type parameters; a \<open>BroadcastId\<close> is the
  \<open>uint32_t\<close> that the callbacks of the header pass; a \<open>BroadcastCode\<close> is 128 bits.
\<close>

record ('cfg, 'pba, 'baa) BroadcastStateMachineConfig =
  is_public :: bool
  broadcast_id :: u32
  broadcast_name :: string
  streaming_phy :: u8
  config :: 'cfg
  public_announcement :: 'pba
  announcement :: 'baa
  broadcast_code :: "128 word option"

text \<open>
  Modelled from the spec: what a call on the machine sends out, whose code is missing
  from the sources. These are the calls of
  \<^verbatim>\<open>class IBroadcastStateMachineCallbacks\<close> that the machine makes on its
  owner, and the requests it sends to the advertising subsystem and to the controller.
  The callbacks carry the arguments that the header declares. The requests are named after
  the spec's words for them (advertising-set and periodic-advertising creation,
  periodic-advertising enable or disable, advertising-set removal, re-write of the
  periodic-advertising payload, own-address request, BIG creation and termination, ISO
  data-path setup and removal).
\<close>

datatype effect =
    OnStateMachineCreateStatus u32 bool
  | OnStateMachineDestroyed u32
  | OnStateMachineEvent u32 State "BigConfig option"
  | OnOwnAddressResponse u32 u8 RawAddress
  | OnBigCreated "u16 list"
  | OnAnnouncementUpdated u32
  | Req_CreateAnnouncement
  | Req_EnablePeriodicAdvertising bool
  | Req_RemoveAdvertisingSet u8
  | Req_UpdateAnnouncement
  | Req_OwnAddress
  | Req_CreateBig
  | Req_TerminateBig u8
  | Req_SetupIsoDataPath u16
  | Req_RemoveIsoDataPath u16

text \<open>
  Modelled from the spec: the payload of
  \<^verbatim>\<open>HandleHciEvent(uint16_t event, void* data)\<close>. The event codes are
  not in the sources; the spec names two results that arrive this way, BIG creation
  (whose fields are copied into a \<open>BigConfig\<close>) and BIG termination (a status byte and
  the BIG id), and leaves every other code opaque.
\<close>

datatype hci_event =
    BigCreateComplete BigConfig
  | BigTerminateComplete u8 u8
  | OtherHciEvent u16

section \<open>The implementing class, from the spec\<close>

text \<open>
  Modelled from the spec: the class behind \<open>CreateInstance\<close>, which implements the pure
  virtual members of \<open>BroadcastStateMachine\<close>, is missing from the sources. Following
  the spec's data model, the object adds to the base class the configuration it was
  created from and the optional \<open>BigConfig\<close>; to decide the rows of the transition table
  that wait for several completions it also keeps the progress of the sequence in flight:
  the connection handles whose ISO data path is set up, whether periodic advertising is
  enabled, and whether the BIG is terminated. For the cancellation rule of the spec's
  section 5 it remembers a STOP that was issued while ENABLING.
\<close>

record ('cfg, 'pba, 'baa) BroadcastStateMachineImpl = BroadcastStateMachine +
  sm_config :: "('cfg, 'pba, 'baa) BroadcastStateMachineConfig"
  big_config :: "BigConfig option"
  data_paths :: "u16 list"
  pa_enabled :: bool
  big_terminated :: bool
  stop_pending :: bool

text \<open>
  Modelled from the spec: the status byte of a completion, missing from the sources. The
  spec tells success from any non-success status; success is the zero status.
\<close>

definition STATUS_SUCCESS :: u8 where
  "STATUS_SUCCESS = 0"

text \<open>
  Modelled from the spec: \<open>CreateInstance\<close>, declared in the header and defined outside
  the sources, "constructs one machine in STOPPED state from a
  BroadcastStateMachineConfig", "with BigConfig absent and advertising\_sid == 0xFF". The
  base part is built by the constructor of the header.
\<close>

definition CreateInstance ::
  "('cfg, 'pba, 'baa) BroadcastStateMachineConfig \<Rightarrow> ('cfg, 'pba, 'baa) BroadcastStateMachineImpl" where
  "CreateInstance msg =
     BroadcastStateMachine_ctor
       (BroadcastStateMachineImpl.fields msg None [] False False False)"

text \<open>
  Modelled from the spec: \<open>GetBigConfig\<close>, pure virtual in the header, returns the
  BigConfig that the machine owns, if any.
\<close>

definition GetBigConfig :: "('cfg, 'pba, 'baa) BroadcastStateMachineImpl \<Rightarrow> BigConfig option" where
  "GetBigConfig m = big_config m"

text \<open>
  Modelled from the spec: \<open>GetStateMachineConfig\<close>, pure virtual in the header, returns
  the configuration that the machine was created from.
\<close>

definition GetStateMachineConfig ::
  "('cfg, 'pba, 'baa) BroadcastStateMachineImpl \<Rightarrow> ('cfg, 'pba, 'baa) BroadcastStateMachineConfig" where
  "GetStateMachineConfig m = sm_config m"

text \<open>
  Modelled from the spec: \<open>GetBroadcastId\<close>, pure virtual in the header, returns the
  broadcast identity "set at creation, immutable for the lifetime of the source".
\<close>

definition GetBroadcastId :: "('cfg, 'pba, 'baa) BroadcastStateMachineImpl \<Rightarrow> u32" where
  "GetBroadcastId m = broadcast_id (sm_config m)"

text \<open>
  Modelled from the spec: \<open>GetOwnAddress\<close> and \<open>GetOwnAddressType\<close>, pure virtual in
  the header, "return a prior cached value (initially the empty/zero address)".
\<close>

definition GetOwnAddress :: "('cfg, 'pba, 'baa) BroadcastStateMachineImpl \<Rightarrow> RawAddress" where
  "GetOwnAddress m = addr m"

text \<open>
  Modelled from the spec: \<open>GetOwnAddressType\<close>, the cached address type.
\<close>

definition GetOwnAddressType :: "('cfg, 'pba, 'baa) BroadcastStateMachineImpl \<Rightarrow> u8" where
  "GetOwnAddressType m = addr_type m"

text \<open>
  Modelled from the spec: "Every state transition triggers
  IBroadcastStateMachineCallbacks::OnStateMachineEvent with the new state and optional
  event-specific payload". A transition sends its requests, sets the state through the
  header's \<open>SetState\<close> and then reports to the owner.
\<close>

definition transition ::
  "State \<Rightarrow> BigConfig option \<Rightarrow> effect list \<Rightarrow> ('cfg, 'pba, 'baa) BroadcastStateMachineImpl
   \<Rightarrow> ('cfg, 'pba, 'baa) BroadcastStateMachineImpl \<times> effect list" where
  "transition new_state payload requests m =
     (SetState new_state m,
      requests @ [OnStateMachineEvent (GetBroadcastId m) new_state payload])"

text \<open>
  Modelled from the spec: the teardown of what an enable sequence has built, "any created
  data paths removed, BIG terminated if created", data paths first ("requests ISO
  data-path removal then BIG termination").
\<close>

definition teardown_requests :: "('cfg, 'pba, 'baa) BroadcastStateMachineImpl \<Rightarrow> effect list" where
  "teardown_requests m =
     map Req_RemoveIsoDataPath (data_paths m)
     @ (case big_config m of None \<Rightarrow> [] | Some bc \<Rightarrow> [Req_TerminateBig (big_id bc)])"

text \<open>
  Modelled from the spec: the row "CONFIGURED or STREAMING | STOP | STOPPING | requests
  periodic-adv disable and advertising-set removal; if streaming, BIG/data-path teardown
  precedes this". The BigConfig is "owned exclusively by the state machine, created only
  on successful BIG-creation completion, destroyed on teardown", so the teardown that
  precedes the two requests leaves the machine without it.
\<close>

definition process_stop ::
  "('cfg, 'pba, 'baa) BroadcastStateMachineImpl
   \<Rightarrow> ('cfg, 'pba, 'baa) BroadcastStateMachineImpl \<times> effect list" where
  "process_stop m =
     (if GetState m = Some CONFIGURED then
        transition STOPPING None
          [Req_EnablePeriodicAdvertising False, Req_RemoveAdvertisingSet (advertising_sid m)] m
      else if GetState m = Some STREAMING then
        transition STOPPING None
          (teardown_requests m
           @ [Req_EnablePeriodicAdvertising False, Req_RemoveAdvertisingSet (advertising_sid m)])
          (m\<lparr>big_config := None, data_paths := []\<rparr>)
      else (m, []))"

text \<open>
  Modelled from the spec: the cancellation rule of section 5, "STOP issued while ENABLING
  must still be honored once the in-flight enable sequence resolves (either by completing
  then immediately disabling, or by aborting the partially-built BIG)". The argument is
  the machine and what it has sent at the moment the enable sequence resolves, to
  STREAMING or by rollback to CONFIGURED; a STOP remembered from ENABLING is then processed
  by the STOP row, in the same call.
\<close>

definition honour_pending_stop ::
  "('cfg, 'pba, 'baa) BroadcastStateMachineImpl \<times> effect list
   \<Rightarrow> ('cfg, 'pba, 'baa) BroadcastStateMachineImpl \<times> effect list" where
  "honour_pending_stop resolved =
     (if stop_pending (fst resolved) then
        (fst (process_stop ((fst resolved)\<lparr>stop_pending := False\<rparr>)),
         snd resolved @ snd (process_stop ((fst resolved)\<lparr>stop_pending := False\<rparr>)))
      else resolved)"

text \<open>
  Modelled from the spec: the row "ENABLING | any of the three fails | CONFIGURED
  (rollback) | partial setup is torn down: any created data paths removed, BIG terminated
  if created", with the teardown "before reporting". The BigConfig is "destroyed on
  teardown". The rollback resolves the enable sequence, so a pending STOP follows it.
\<close>

definition rollback ::
  "('cfg, 'pba, 'baa) BroadcastStateMachineImpl
   \<Rightarrow> ('cfg, 'pba, 'baa) BroadcastStateMachineImpl \<times> effect list" where
  "rollback m =
     honour_pending_stop
       (transition CONFIGURED None (teardown_requests m)
          (m\<lparr>big_config := None, data_paths := [], pa_enabled := False\<rparr>))"

text \<open>
  Modelled from the spec: the row "ENABLING | periodic-adv enabled + BIG created + all data
  paths set up | STREAMING | all three async completions must succeed", entered with "the
  BigConfig when entering STREAMING" as payload. The requests are those that the
  completion at hand has already caused. Entering STREAMING resolves the enable sequence,
  so a pending STOP follows it.
\<close>

definition enable_progress ::
  "effect list \<Rightarrow> ('cfg, 'pba, 'baa) BroadcastStateMachineImpl
   \<Rightarrow> ('cfg, 'pba, 'baa) BroadcastStateMachineImpl \<times> effect list" where
  "enable_progress requests m =
     (case big_config m of
        None \<Rightarrow> (m, requests)
      | Some bc \<Rightarrow>
          if pa_enabled m \<and> list_all (\<lambda>h. h \<in> set (data_paths m)) (connection_handles bc)
          then honour_pending_stop (transition STREAMING (Some bc) requests m)
          else (m, requests))"

text \<open>
  Modelled from the spec: the row "DISABLING | data paths removed + BIG terminated |
  CONFIGURED | BigConfig is cleared".
\<close>

definition disable_progress ::
  "('cfg, 'pba, 'baa) BroadcastStateMachineImpl
   \<Rightarrow> ('cfg, 'pba, 'baa) BroadcastStateMachineImpl \<times> effect list" where
  "disable_progress m =
     (if data_paths m = [] \<and> big_terminated m
      then transition CONFIGURED None [] (m\<lparr>big_config := None, big_terminated := False\<rparr>)
      else (m, []))"

text \<open>
  Modelled from the spec: "Stale/out-of-order completion: detected via identifier mismatch
  (BIG id, connection handle, advertising sid); silently discarded". A connection handle
  is stale when the machine holds no BigConfig or the handle is none of its
  \<open>connection_handles\<close>.
\<close>

definition stale_conn_handle :: "u16 \<Rightarrow> ('cfg, 'pba, 'baa) BroadcastStateMachineImpl \<Rightarrow> bool" where
  "stale_conn_handle conn_handle m =
     (case big_config m of
        None \<Rightarrow> True
      | Some bc \<Rightarrow> conn_handle \<notin> set (connection_handles bc))"

text \<open>
  Modelled from the spec: the identifier mismatch of a BIG id, which is stale when the
  machine holds no BigConfig or the id is not the \<open>big_id\<close> of the BigConfig held.
\<close>

definition stale_big_id :: "u8 \<Rightarrow> ('cfg, 'pba, 'baa) BroadcastStateMachineImpl \<Rightarrow> bool" where
  "stale_big_id a_big_id m =
     (case big_config m of
        None \<Rightarrow> True
      | Some bc \<Rightarrow> a_big_id \<noteq> big_id bc)"

text \<open>
  Modelled from the spec: the identifier mismatch of an advertising sid, which is stale
  when it is not the cached one.
\<close>

definition stale_advertising_sid :: "u8 \<Rightarrow> ('cfg, 'pba, 'baa) BroadcastStateMachineImpl \<Rightarrow> bool" where
  "stale_advertising_sid sid m = (sid \<noteq> advertising_sid m)"

text \<open>
  Modelled from the spec: \<open>ProcessMessage\<close>, pure virtual in the header. Its rows of the
  transition table:
  "STOPPED | START (create announcement) | CONFIGURING | requests advertising-set +
  periodic-advertising creation";
  "CONFIGURED | START | ENABLING | requests periodic-advertising enable, BIG creation, ISO
  data-path setup (per BIS)" (the data-path requests need the connection handles and
  follow the BIG-creation event);
  "STREAMING | SUSPEND | DISABLING | requests ISO data-path removal then BIG termination";
  "CONFIGURED or STREAMING | STOP | STOPPING | requests periodic-adv disable and
  advertising-set removal; if streaming, BIG/data-path teardown precedes this".
  A STOP that arrives while ENABLING is remembered and honoured when the enable sequence
  resolves (section 5: it "must still be honored once the in-flight enable sequence
  resolves"); a new enable sequence starts with no STOP pending. Every other message with
  no row for the current state is ignored, as the edge-case policy allows
  ("queued-or-ignored at the implementer's discretion").
\<close>

definition ProcessMessage ::
  "Message \<Rightarrow> ('cfg, 'pba, 'baa) BroadcastStateMachineImpl
   \<Rightarrow> ('cfg, 'pba, 'baa) BroadcastStateMachineImpl \<times> effect list" where
  "ProcessMessage event m =
     (if event = START \<and> GetState m = Some STOPPED then
        transition CONFIGURING None [Req_CreateAnnouncement] m
      else if event = START \<and> GetState m = Some CONFIGURED then
        transition ENABLING None [Req_EnablePeriodicAdvertising True, Req_CreateBig]
          (m\<lparr>data_paths := [], pa_enabled := False, stop_pending := False\<rparr>)
      else if event = SUSPEND \<and> GetState m = Some STREAMING then
        transition DISABLING None (teardown_requests m) (m\<lparr>big_terminated := False\<rparr>)
      else if event = STOP \<and> (GetState m = Some CONFIGURED \<or> GetState m = Some STREAMING) then
        process_stop m
      else if event = STOP \<and> GetState m = Some ENABLING then
        (m\<lparr>stop_pending := True\<rparr>, [])
      else (m, []))"

text \<open>
  Modelled from the spec: \<open>OnCreateAnnouncement\<close>, pure virtual in the header. Its rows:
  "CONFIGURING | advertising-set created, status=success | CONFIGURED | caches
  advertising\_sid; reports creation status to owner" and
  "CONFIGURING | advertising-set created, status=failure | STOPPED | reports failure to
  owner; no retry". The failure is "reported once via OnStateMachineCreateStatus".
\<close>

definition OnCreateAnnouncement ::
  "u8 \<Rightarrow> s8 \<Rightarrow> u8 \<Rightarrow> ('cfg, 'pba, 'baa) BroadcastStateMachineImpl
   \<Rightarrow> ('cfg, 'pba, 'baa) BroadcastStateMachineImpl \<times> effect list" where
  "OnCreateAnnouncement sid tx_power cmpl_status m =
     (if GetState m = Some CONFIGURING then
        (if cmpl_status = STATUS_SUCCESS then
           transition CONFIGURED None [OnStateMachineCreateStatus (GetBroadcastId m) True]
             (m\<lparr>advertising_sid := sid\<rparr>)
         else
           transition STOPPED None [OnStateMachineCreateStatus (GetBroadcastId m) False] m)
      else (m, []))"

text \<open>
  Modelled from the spec: \<open>OnEnableAnnouncement\<close>, pure virtual in the header: the
  completion of a periodic-advertising enable, one of the three completions of the
  ENABLING rows. Any other use of the callback has no row and changes nothing.
\<close>

definition OnEnableAnnouncement ::
  "bool \<Rightarrow> u8 \<Rightarrow> ('cfg, 'pba, 'baa) BroadcastStateMachineImpl
   \<Rightarrow> ('cfg, 'pba, 'baa) BroadcastStateMachineImpl \<times> effect list" where
  "OnEnableAnnouncement enable cmpl_status m =
     (if GetState m = Some ENABLING \<and> enable then
        (if cmpl_status = STATUS_SUCCESS then enable_progress [] (m\<lparr>pa_enabled := True\<rparr>)
         else rollback m)
      else (m, []))"

text \<open>
  Modelled from the spec: \<open>HandleHciEvent\<close>, pure virtual in the header. A BIG-creation
  event while ENABLING with no BigConfig yet: on success the machine "builds BigConfig
  from the BIG-creation event", hands the connection handles to the owner
  (\<open>OnBigCreated\<close>) and requests the ISO data-path setup per BIS; on failure it rolls
  back. A BIG-termination event while DISABLING, for the BIG held, is one of the two
  completions of the DISABLING row. Every other event has no row.
\<close>

definition HandleHciEvent ::
  "hci_event \<Rightarrow> ('cfg, 'pba, 'baa) BroadcastStateMachineImpl
   \<Rightarrow> ('cfg, 'pba, 'baa) BroadcastStateMachineImpl \<times> effect list" where
  "HandleHciEvent event m =
     (case event of
        BigCreateComplete evt \<Rightarrow>
          if GetState m = Some ENABLING \<and> big_config m = None then
            (if status evt = STATUS_SUCCESS then
               enable_progress
                 (OnBigCreated (connection_handles evt)
                  # map Req_SetupIsoDataPath (connection_handles evt))
                 (m\<lparr>big_config := Some evt\<rparr>)
             else rollback m)
          else (m, [])
      | BigTerminateComplete cmpl_status a_big_id \<Rightarrow>
          if stale_big_id a_big_id m then (m, [])
          else if GetState m = Some DISABLING \<and> cmpl_status = STATUS_SUCCESS then
            disable_progress (m\<lparr>big_terminated := True\<rparr>)
          else (m, [])
      | OtherHciEvent code \<Rightarrow> (m, []))"

text \<open>
  Modelled from the spec: \<open>OnSetupIsoDataPath\<close>, pure virtual in the header. A stale
  completion is discarded "without double-applying effects"; while ENABLING a success
  records the data path and a failure rolls back.
\<close>

definition OnSetupIsoDataPath ::
  "u8 \<Rightarrow> u16 \<Rightarrow> ('cfg, 'pba, 'baa) BroadcastStateMachineImpl
   \<Rightarrow> ('cfg, 'pba, 'baa) BroadcastStateMachineImpl \<times> effect list" where
  "OnSetupIsoDataPath cmpl_status conn_handle m =
     (if stale_conn_handle conn_handle m then (m, [])
      else if GetState m = Some ENABLING then
        (if cmpl_status = STATUS_SUCCESS then
           (if conn_handle \<in> set (data_paths m) then (m, [])
            else enable_progress [] (m\<lparr>data_paths := data_paths m @ [conn_handle]\<rparr>))
         else rollback m)
      else (m, []))"

text \<open>
  Modelled from the spec: \<open>OnRemoveIsoDataPath\<close>, pure virtual in the header: while
  DISABLING, the successful removal of a data path of the BIG held is one of the
  completions of the DISABLING row.
\<close>

definition OnRemoveIsoDataPath ::
  "u8 \<Rightarrow> u16 \<Rightarrow> ('cfg, 'pba, 'baa) BroadcastStateMachineImpl
   \<Rightarrow> ('cfg, 'pba, 'baa) BroadcastStateMachineImpl \<times> effect list" where
  "OnRemoveIsoDataPath cmpl_status conn_handle m =
     (if stale_conn_handle conn_handle m then (m, [])
      else if GetState m = Some DISABLING \<and> cmpl_status = STATUS_SUCCESS then
        disable_progress (m\<lparr>data_paths := removeAll conn_handle (data_paths m)\<rparr>)
      else (m, []))"

text \<open>
  Modelled from the spec: the completion of the advertising-set removal, for which the
  header declares no callback of its own: "STOPPING | advertising-set removed | STOPPED |
  BigConfig cleared if still present; advertising\_sid reset to unassigned". It carries
  a status and the advertising sid.
\<close>

definition AdvertisingSetRemoved ::
  "u8 \<Rightarrow> u8 \<Rightarrow> ('cfg, 'pba, 'baa) BroadcastStateMachineImpl
   \<Rightarrow> ('cfg, 'pba, 'baa) BroadcastStateMachineImpl \<times> effect list" where
  "AdvertisingSetRemoved cmpl_status sid m =
     (if stale_advertising_sid sid m then (m, [])
      else if GetState m = Some STOPPING \<and> cmpl_status = STATUS_SUCCESS then
        transition STOPPED None []
          (m\<lparr>advertising_sid := kAdvSidUndefined, big_config := None\<rparr>)
      else (m, []))"

text \<open>
  Modelled from the spec: "currently advertising (state \<ge> CONFIGURED)", on the ordinals
  of the states.
\<close>

definition currently_advertising :: "('cfg, 'pba, 'baa) BroadcastStateMachineImpl \<Rightarrow> bool" where
  "currently_advertising m = (State_to_underlying CONFIGURED \<le> StateMachine_GetState m)"

text \<open>
  Modelled from the spec: \<open>UpdateBroadcastAnnouncement\<close>, pure virtual in the header: the
  announcement updates "replace the cached announcement payload and, if currently
  advertising (state \<ge> CONFIGURED), issue an asynchronous re-write of the
  periodic-advertising payload".
\<close>

definition UpdateBroadcastAnnouncement ::
  "'baa \<Rightarrow> ('cfg, 'pba, 'baa) BroadcastStateMachineImpl
   \<Rightarrow> ('cfg, 'pba, 'baa) BroadcastStateMachineImpl \<times> effect list" where
  "UpdateBroadcastAnnouncement new_announcement m =
     (m\<lparr>sm_config := (sm_config m)\<lparr>announcement := new_announcement\<rparr>\<rparr>,
      if currently_advertising m then [Req_UpdateAnnouncement] else [])"

text \<open>
  Modelled from the spec: \<open>UpdatePublicBroadcastAnnouncement\<close>, pure virtual in the
  header, does the same with the public announcement payload; the identity and the name
  of the broadcast are "immutable for the lifetime of the source" and stay.
\<close>

definition UpdatePublicBroadcastAnnouncement ::
  "u32 \<Rightarrow> string \<Rightarrow> 'pba \<Rightarrow> ('cfg, 'pba, 'baa) BroadcastStateMachineImpl
   \<Rightarrow> ('cfg, 'pba, 'baa) BroadcastStateMachineImpl \<times> effect list" where
  "UpdatePublicBroadcastAnnouncement a_broadcast_id a_broadcast_name new_announcement m =
     (m\<lparr>sm_config := (sm_config m)\<lparr>public_announcement := new_announcement\<rparr>\<rparr>,
      if currently_advertising m then [Req_UpdateAnnouncement] else [])"

text \<open>
  Modelled from the spec: \<open>OnUpdateAnnouncement\<close>, pure virtual in the header: the
  "completion is reported via OnUpdateAnnouncement and surfaced to the owner via
  OnAnnouncementUpdated".
\<close>

definition OnUpdateAnnouncement ::
  "u8 \<Rightarrow> ('cfg, 'pba, 'baa) BroadcastStateMachineImpl
   \<Rightarrow> ('cfg, 'pba, 'baa) BroadcastStateMachineImpl \<times> effect list" where
  "OnUpdateAnnouncement cmpl_status m = (m, [OnAnnouncementUpdated (GetBroadcastId m)])"

text \<open>
  Modelled from the spec: \<open>RequestOwnAddress\<close>, pure virtual in the header, "asks the
  advertising subsystem for the resolvable/non-resolvable address assigned to this
  broadcast's advertising set".
\<close>

definition RequestOwnAddress ::
  "('cfg, 'pba, 'baa) BroadcastStateMachineImpl
   \<Rightarrow> ('cfg, 'pba, 'baa) BroadcastStateMachineImpl \<times> effect list" where
  "RequestOwnAddress m = (m, [Req_OwnAddress])"

text \<open>
  Modelled from the spec: the resolution of the own address, which arrives through the
  callback bound to the request: "the address is cached and the owner is notified via
  OnOwnAddressResponse".
\<close>

definition OwnAddressResolved ::
  "u8 \<Rightarrow> RawAddress \<Rightarrow> ('cfg, 'pba, 'baa) BroadcastStateMachineImpl
   \<Rightarrow> ('cfg, 'pba, 'baa) BroadcastStateMachineImpl \<times> effect list" where
  "OwnAddressResolved address_type address m =
     (m\<lparr>addr := address, addr_type := address_type\<rparr>,
      [OnOwnAddressResponse (GetBroadcastId m) address_type address])"

section \<open>Runs of the machine\<close>

text \<open>
  The operations on a machine: the members of the header that the owner, the advertising
  subsystem and the controller call, and the two completions for which the header
  declares no member (the removal of the advertising set and the resolution of the own
  address). \<open>step\<close> dispatches a call to its member.
\<close>

datatype ('pba, 'baa) call =
    Call_ProcessMessage Message
  | Call_OnCreateAnnouncement u8 s8 u8
  | Call_OnEnableAnnouncement bool u8
  | Call_OnUpdateAnnouncement u8
  | Call_HandleHciEvent hci_event
  | Call_OnSetupIsoDataPath u8 u16
  | Call_OnRemoveIsoDataPath u8 u16
  | Call_AdvertisingSetRemoved u8 u8
  | Call_UpdateBroadcastAnnouncement 'baa
  | Call_UpdatePublicBroadcastAnnouncement u32 string 'pba
  | Call_RequestOwnAddress
  | Call_OwnAddressResolved u8 RawAddress
  | Call_SetMuted bool

fun step ::
  "('pba, 'baa) call \<Rightarrow> ('cfg, 'pba, 'baa) BroadcastStateMachineImpl
   \<Rightarrow> ('cfg, 'pba, 'baa) BroadcastStateMachineImpl \<times> effect list" where
  "step (Call_ProcessMessage event) m = ProcessMessage event m"
| "step (Call_OnCreateAnnouncement sid tx_power cmpl_status) m =
     OnCreateAnnouncement sid tx_power cmpl_status m"
| "step (Call_OnEnableAnnouncement enable cmpl_status) m = OnEnableAnnouncement enable cmpl_status m"
| "step (Call_OnUpdateAnnouncement cmpl_status) m = OnUpdateAnnouncement cmpl_status m"
| "step (Call_HandleHciEvent event) m = HandleHciEvent event m"
| "step (Call_OnSetupIsoDataPath cmpl_status conn_handle) m =
     OnSetupIsoDataPath cmpl_status conn_handle m"
| "step (Call_OnRemoveIsoDataPath cmpl_status conn_handle) m =
     OnRemoveIsoDataPath cmpl_status conn_handle m"
| "step (Call_AdvertisingSetRemoved cmpl_status sid) m = AdvertisingSetRemoved cmpl_status sid m"
| "step (Call_UpdateBroadcastAnnouncement new_announcement) m =
     UpdateBroadcastAnnouncement new_announcement m"
| "step (Call_UpdatePublicBroadcastAnnouncement a_broadcast_id a_broadcast_name new_announcement) m =
     UpdatePublicBroadcastAnnouncement a_broadcast_id a_broadcast_name new_announcement m"
| "step Call_RequestOwnAddress m = RequestOwnAddress m"
| "step (Call_OwnAddressResolved address_type address) m = OwnAddressResolved address_type address m"
| "step (Call_SetMuted muted) m = (SetMuted muted m, [])"

text \<open>The machine after a sequence of calls, and everything it sent on the way.\<close>

fun run ::
  "('pba, 'baa) call list \<Rightarrow> ('cfg, 'pba, 'baa) BroadcastStateMachineImpl
   \<Rightarrow> ('cfg, 'pba, 'baa) BroadcastStateMachineImpl" where
  "run [] m = m"
| "run (c # cs) m = run cs (fst (step c m))"

fun run_effects ::
  "('pba, 'baa) call list \<Rightarrow> ('cfg, 'pba, 'baa) BroadcastStateMachineImpl \<Rightarrow> effect list" where
  "run_effects [] m = []"
| "run_effects (c # cs) m = snd (step c m) @ run_effects cs (fst (step c m))"

section \<open>Histories of a run\<close>

text \<open>
  The states in which the spec lets a BigConfig exist.
\<close>

definition in_big_state :: "('cfg, 'pba, 'baa) BroadcastStateMachineImpl \<Rightarrow> bool" where
  "in_big_state m =
     (GetState m = Some ENABLING \<or> GetState m = Some STREAMING \<or> GetState m = Some DISABLING)"





text \<open>
  What the controller has reported during an attempt: the first BIG-creation event with
  the calls after it, the connection handles of the successful data-path setup
  completions, and among these the ones that arrived after the BIG-creation event for a
  connection handle of that BIG.
\<close>

fun created_big :: "('pba, 'baa) call list \<Rightarrow> (BigConfig \<times> ('pba, 'baa) call list) option" where
  "created_big [] = None"
| "created_big (Call_HandleHciEvent (BigCreateComplete evt) # cs) = Some (evt, cs)"
| "created_big (c # cs) = created_big cs"

fun setup_successes :: "('pba, 'baa) call list \<Rightarrow> u16 list" where
  "setup_successes [] = []"
| "setup_successes (Call_OnSetupIsoDataPath cmpl_status conn_handle # cs) =
     (if cmpl_status = STATUS_SUCCESS then conn_handle # setup_successes cs
      else setup_successes cs)"
| "setup_successes (c # cs) = setup_successes cs"

definition paths_set_up :: "('pba, 'baa) call list \<Rightarrow> u16 list" where
  "paths_set_up cs =
     (case created_big cs of
        None \<Rightarrow> []
      | Some (evt, rest) \<Rightarrow>
          filter (\<lambda>h. h \<in> set (connection_handles evt)) (setup_successes rest))"


fun is_SetMuted :: "('pba, 'baa) call \<Rightarrow> bool" where
  "is_SetMuted (Call_SetMuted muted) = True"
| "is_SetMuted c = False"

section \<open>Example inputs\<close>

definition example_config :: "(unit, unit, unit) BroadcastStateMachineConfig" where
  "example_config =
     \<lparr>is_public = False, broadcast_id = 1, broadcast_name = ''b'', streaming_phy = 2,
      config = (), public_announcement = (), announcement = (), broadcast_code = None\<rparr>"

definition example_big :: "u8 \<Rightarrow> u8 \<Rightarrow> u16 list \<Rightarrow> BigConfig" where
  "example_big cmpl_status a_big_id handles =
     \<lparr>status = cmpl_status, big_id = a_big_id, big_sync_delay = 0, transport_latency_big = 0,
      phy = 2, nse = 1, bn = 1, pto = 0, irc = 1, max_pdu = 100, iso_interval = 8,
      connection_handles = handles\<rparr>"

text \<open>From creation to CONFIGURED with advertising sid 3.\<close>

definition example_configure :: "(unit, unit) call list" where
  "example_configure = [Call_ProcessMessage START, Call_OnCreateAnnouncement 3 0 0]"

text \<open>An enable attempt that succeeds: BIG 1 with the connection handles 0x10 and 0x11.\<close>

definition example_enable :: "(unit, unit) call list" where
  "example_enable =
     [Call_ProcessMessage START,
      Call_OnEnableAnnouncement True 0,
      Call_HandleHciEvent (BigCreateComplete (example_big 0 1 [0x10, 0x11])),
      Call_OnSetupIsoDataPath 0 0x10,
      Call_OnSetupIsoDataPath 0 0x11]"

text \<open>
  An enable attempt during which the owner issues a STOP; the setup of the data path of
  0x11 is outstanding.
\<close>

definition example_enable_stop_pending :: "(unit, unit) call list" where
  "example_enable_stop_pending =
     [Call_ProcessMessage START,
      Call_ProcessMessage STOP,
      Call_OnEnableAnnouncement True 0,
      Call_HandleHciEvent (BigCreateComplete (example_big 0 1 [0x10, 0x11])),
      Call_OnSetupIsoDataPath 0 0x10]"

text \<open>A suspend that completes, and a second enable attempt: BIG 2 with the handle 0x20.\<close>

definition example_suspend :: "(unit, unit) call list" where
  "example_suspend =
     [Call_ProcessMessage SUSPEND,
      Call_OnRemoveIsoDataPath 0 0x10,
      Call_OnRemoveIsoDataPath 0 0x11,
      Call_HandleHciEvent (BigTerminateComplete 0 1)]"

definition example_enable_again :: "(unit, unit) call list" where
  "example_enable_again =
     [Call_ProcessMessage START,
      Call_OnEnableAnnouncement True 0,
      Call_HandleHciEvent (BigCreateComplete (example_big 0 2 [0x20]))]"

section \<open>The advertising power table (btif\_ble\_advertiser.cc)\<close>

text \<open>
  \<^verbatim>\<open>int8_t ble_tx_power[BTM_BLE_ADV_TX_POWER_MAX + 1] = BTM_BLE_ADV_TX_POWER;
  int8_t ble_map_adv_tx_power(int tx_power_index) {
    if (0 <= tx_power_index && tx_power_index < BTM_BLE_ADV_TX_POWER_MAX)
      return (int8_t)ble_tx_power[tx_power_index];
    return 0;
  }\<close>
  The macros \<open>BTM_BLE_ADV_TX_POWER_MAX\<close> and \<open>BTM_BLE_ADV_TX_POWER\<close> are defined outside
  the sources at hand, so the bound and the table are parameters. A read outside the
  table is an error value of the model.
\<close>

datatype error = OutOfBounds

definition ble_map_adv_tx_power :: "int \<Rightarrow> s8 list \<Rightarrow> c_int \<Rightarrow> error + s8" where
  "ble_map_adv_tx_power BTM_BLE_ADV_TX_POWER_MAX ble_tx_power tx_power_index =
     (if 0 \<le> sint tx_power_index \<and> sint tx_power_index < BTM_BLE_ADV_TX_POWER_MAX
      then (if nat (sint tx_power_index) < length ble_tx_power
            then Inr (ble_tx_power ! nat (sint tx_power_index))
            else Inl OutOfBounds)
      else Inr 0)"

section \<open>Properties of the bounded state holder\<close>

lemma State_of_underlying_inverse: "State_of_underlying (State_to_underlying s) = Some s"
  by (cases s) (simp_all add: State_of_underlying_def)

lemma State_of_underlying_Some_iff: "(State_of_underlying raw \<noteq> None) = (uint raw < 7)"
proof
  assume "State_of_underlying raw \<noteq> None"
  then have "raw = 0 \<or> raw = 1 \<or> raw = 2 \<or> raw = 3 \<or> raw = 4 \<or> raw = 5 \<or> raw = 6"
    by (simp add: State_of_underlying_def split: if_splits)
  then show "uint raw < 7"
    by auto
next
  assume bound: "uint raw < 7"
  have "0 \<le> uint raw"
    by simp
  with bound have "uint raw = 0 \<or> uint raw = 1 \<or> uint raw = 2 \<or> uint raw = 3
      \<or> uint raw = 4 \<or> uint raw = 5 \<or> uint raw = 6"
    by arith
  then have "raw = 0 \<or> raw = 1 \<or> raw = 2 \<or> raw = 3 \<or> raw = 4 \<or> raw = 5 \<or> raw = 6"
    by (auto simp: word_uint_eq_iff)
  then show "State_of_underlying raw \<noteq> None"
    by (auto simp: State_of_underlying_def)
qed

lemma StateMachine_SetState_bound:
  "uint (state m) < 7 \<Longrightarrow> uint (state (StateMachine_SetState 7 n m)) < 7"
  by (simp add: StateMachine_SetState_def)

lemma SetState_calls_bound:
  "uint (state m) < 7 \<Longrightarrow> uint (state (SetState_calls ns m)) < 7"
  by (induction ns arbitrary: m) (simp_all add: StateMachine_SetState_bound)

text \<open>
  C2. For every stored value and every new value \<open>n\<close>, \<open>SetState n\<close> on the holder with
  \<open>S = 7\<close> stores \<open>n\<close> when \<open>n < 7\<close> and keeps the old value otherwise; nothing else
  of the object changes and there is no failure result; \<open>GetState\<close> then returns the
  stored value.
\<close>

theorem SetState_stores_iff_below_7:
  "state (StateMachine_SetState 7 n m) = (if uint n < 7 then n else state m)
   \<and> StateMachine_GetState (StateMachine_SetState 7 n m) = state (StateMachine_SetState 7 n m)
   \<and> StateMachine.more (StateMachine_SetState 7 n m) = StateMachine.more m"
  by (simp add: StateMachine_SetState_def StateMachine_GetState_def)

theorem SetState_stores_iff_below_7_witness:
  "StateMachine_GetState (StateMachine_SetState 7 3 \<lparr>state = 5\<rparr>) = 3
   \<and> StateMachine_GetState (StateMachine_SetState 7 7 \<lparr>state = 5\<rparr>) = 5
   \<and> StateMachine_GetState (StateMachine_SetState 7 200 \<lparr>state = 5\<rparr>) = 5"
  using SetState_stores_iff_below_7 [of 3 "\<lparr>state = 5\<rparr>"]
    SetState_stores_iff_below_7 [of 7 "\<lparr>state = 5\<rparr>"]
    SetState_stores_iff_below_7 [of 200 "\<lparr>state = 5\<rparr>"]
  by simp

text \<open>
  C3. The stored raw state of a BroadcastStateMachine starts at 0, which is STOPPED, and
  stays below 7 through every sequence of \<open>SetState\<close> calls, so \<open>GetState\<close> always
  yields one of the seven declared enumerators.
\<close>

theorem state_always_declared_enumerator:
  "state (BroadcastStateMachine_ctor d) = 0
   \<and> GetState (BroadcastStateMachine_ctor d) = Some STOPPED
   \<and> uint (state (SetState_calls ns (BroadcastStateMachine_ctor d))) < 7
   \<and> (\<exists>s. GetState (SetState_calls ns (BroadcastStateMachine_ctor d)) = Some s)"
proof -
  have init: "state (BroadcastStateMachine_ctor d) = 0"
    by (simp add: BroadcastStateMachine_ctor_def numeric_limits_u8_min_def)
  then have bound: "uint (state (SetState_calls ns (BroadcastStateMachine_ctor d))) < 7"
    by (simp add: SetState_calls_bound)
  then have "State_of_underlying (state (SetState_calls ns (BroadcastStateMachine_ctor d))) \<noteq> None"
    by (simp only: State_of_underlying_Some_iff)
  then have "\<exists>s. GetState (SetState_calls ns (BroadcastStateMachine_ctor d)) = Some s"
    by (simp add: GetState_def StateMachine_GetState_def)
  with init bound show ?thesis
    by (simp add: GetState_def StateMachine_GetState_def State_of_underlying_def)
qed

text \<open>
  C9. In every state \<open>GetPaInterval\<close> returns \<open>kPaIntervalMax\<close>, which is 0xA0, that is
  160 units of 0.625 ms = 100 ms; it never returns \<open>kPaIntervalMin\<close> (0x50).
\<close>

theorem GetPaInterval_is_kPaIntervalMax:
  "GetPaInterval m = kPaIntervalMax
   \<and> GetPaInterval m = 0xA0
   \<and> uint (GetPaInterval m) * 625 = 100 * 1000
   \<and> kPaIntervalMin = 0x50
   \<and> GetPaInterval m \<noteq> kPaIntervalMin
   \<and> GetPaInterval (StateMachine_SetState 7 n m) = GetPaInterval m"
  by (simp add: GetPaInterval_def kPaIntervalMax_def kPaIntervalMin_def)

text \<open>
  C10. With a table of \<open>BTM_BLE_ADV_TX_POWER_MAX + 1\<close> entries, \<open>ble_map_adv_tx_power\<close>
  returns the table entry for an index in \<open>[0, BTM_BLE_ADV_TX_POWER_MAX)\<close> and 0 for every
  other index, never reading outside the table; the index \<open>BTM_BLE_ADV_TX_POWER_MAX\<close>
  itself yields 0, and no result depends on the last entry of the table.
\<close>

theorem ble_map_adv_tx_power_range:
  assumes "int (length ble_tx_power) = tx_max + 1"
  shows "ble_map_adv_tx_power tx_max ble_tx_power i =
           (if 0 \<le> sint i \<and> sint i < tx_max then Inr (ble_tx_power ! nat (sint i)) else Inr 0)
         \<and> ble_map_adv_tx_power tx_max ble_tx_power i \<noteq> Inl OutOfBounds
         \<and> (sint i = tx_max \<longrightarrow> ble_map_adv_tx_power tx_max ble_tx_power i = Inr 0)
         \<and> ble_map_adv_tx_power tx_max (ble_tx_power[nat tx_max := v]) i
             = ble_map_adv_tx_power tx_max ble_tx_power i"
proof -
  have inside: "nat (sint i) < length ble_tx_power" if "0 \<le> sint i" "sint i < tx_max"
    using that assms by linarith
  have other: "nat (sint i) \<noteq> nat tx_max" if "0 \<le> sint i" "sint i < tx_max"
    using that by linarith
  have same: "ble_tx_power[nat tx_max := v] ! nat (sint i) = ble_tx_power ! nat (sint i)"
    if "0 \<le> sint i" "sint i < tx_max"
    using other [OF that] by (simp add: nth_list_update_neq)
  show ?thesis
    using inside same by (auto simp: ble_map_adv_tx_power_def)
qed

theorem ble_map_adv_tx_power_range_witness:
  "ble_map_adv_tx_power 4 [-21, -15, -7, 1, 9] 3 = Inr 1
   \<and> ble_map_adv_tx_power 4 [-21, -15, -7, 1, 9] 4 = Inr 0
   \<and> ble_map_adv_tx_power 4 [-21, -15, -7, 1, 9] (-1) = Inr 0
   \<and> ble_map_adv_tx_power 4 ([-21, -15, -7, 1, 9][nat 4 := 0]) 4 = Inr 0"
proof -
  have len: "int (length [-21, -15, -7, 1, 9 :: s8]) = 4 + 1"
    by simp
  show ?thesis
    using ble_map_adv_tx_power_range [OF len, of 3 0]
      ble_map_adv_tx_power_range [OF len, of 4 0]
      ble_map_adv_tx_power_range [OF len, of "-1" 0]
    by simp
qed

section \<open>Properties of the machine\<close>

lemma SetState_eq: "SetState s m = m\<lparr>state := State_to_underlying s\<rparr>"
  by (cases s) (simp_all add: SetState_def StateMachine_SetState_def)

lemma GetState_raw: "GetState m = State_of_underlying (state m)"
  by (simp add: GetState_def StateMachine_GetState_def)

lemma State_of_underlying_numerals:
  "State_of_underlying 0 = Some STOPPED"
  "State_of_underlying 1 = Some CONFIGURING"
  "State_of_underlying 2 = Some CONFIGURED"
  "State_of_underlying 3 = Some ENABLING"
  "State_of_underlying 4 = Some DISABLING"
  "State_of_underlying 5 = Some STOPPING"
  "State_of_underlying 6 = Some STREAMING"
  by (simp_all add: State_of_underlying_def)

lemmas transition_defs = transition_def rollback_def enable_progress_def disable_progress_def
  process_stop_def honour_pending_stop_def
  teardown_requests_def SetState_eq GetState_raw State_of_underlying_numerals

lemmas handler_defs = ProcessMessage_def OnCreateAnnouncement_def OnEnableAnnouncement_def
  HandleHciEvent_def OnSetupIsoDataPath_def OnRemoveIsoDataPath_def AdvertisingSetRemoved_def
  UpdateBroadcastAnnouncement_def UpdatePublicBroadcastAnnouncement_def OnUpdateAnnouncement_def
  RequestOwnAddress_def OwnAddressResolved_def SetMuted_def
  stale_conn_handle_def stale_big_id_def stale_advertising_sid_def

lemmas eval_defs = handler_defs transition_defs CreateInstance_def BroadcastStateMachine_ctor_def
  BroadcastStateMachineImpl.fields_def numeric_limits_u8_min_def kAdvSidUndefined_def
  STATUS_SUCCESS_def GetBroadcastId_def GetBigConfig_def GetAdvertisingSid_def IsMuted_def
  in_big_state_def paths_set_up_def
  example_config_def example_big_def example_configure_def example_enable_def
  example_suspend_def example_enable_again_def example_enable_stop_pending_def

text \<open>
  C4. Every machine that \<open>CreateInstance\<close> returns is in STOPPED, holds no BigConfig and
  has the advertising sid 0xFF, which is \<open>kAdvSidUndefined\<close>.
\<close>

theorem CreateInstance_postcondition:
  "GetState (CreateInstance msg) = Some STOPPED
   \<and> GetBigConfig (CreateInstance msg) = None
   \<and> GetAdvertisingSid (CreateInstance msg) = 0xFF
   \<and> GetAdvertisingSid (CreateInstance msg) = kAdvSidUndefined"
  by (simp add: CreateInstance_def BroadcastStateMachine_ctor_def
      BroadcastStateMachineImpl.fields_def GetState_raw State_of_underlying_numerals
      numeric_limits_u8_min_def GetBigConfig_def GetAdvertisingSid_def kAdvSidUndefined_def)

text \<open>
  C7. In CONFIGURING, the completion of the advertising-set creation with a failure status
  moves the machine to STOPPED, reports the failure to the owner once (one
  \<open>OnStateMachineCreateStatus\<close> with \<open>initialized = false\<close>, then the state event that
  every transition triggers) and sends no request, so nothing is retried; with the
  success status it moves the machine to CONFIGURED and caches the advertising sid of the
  completion.
\<close>

theorem OnCreateAnnouncement_in_CONFIGURING:
  assumes "GetState m = Some CONFIGURING"
  shows "(cmpl_status \<noteq> STATUS_SUCCESS \<longrightarrow>
            GetState (fst (OnCreateAnnouncement sid tx_power cmpl_status m)) = Some STOPPED
          \<and> snd (OnCreateAnnouncement sid tx_power cmpl_status m)
              = [OnStateMachineCreateStatus (GetBroadcastId m) False,
                 OnStateMachineEvent (GetBroadcastId m) STOPPED None]
          \<and> GetAdvertisingSid (fst (OnCreateAnnouncement sid tx_power cmpl_status m))
              = GetAdvertisingSid m)
       \<and> (cmpl_status = STATUS_SUCCESS \<longrightarrow>
            GetState (fst (OnCreateAnnouncement sid tx_power cmpl_status m)) = Some CONFIGURED
          \<and> GetAdvertisingSid (fst (OnCreateAnnouncement sid tx_power cmpl_status m)) = sid
          \<and> snd (OnCreateAnnouncement sid tx_power cmpl_status m)
              = [OnStateMachineCreateStatus (GetBroadcastId m) True,
                 OnStateMachineEvent (GetBroadcastId m) CONFIGURED None])
       \<and> Req_CreateAnnouncement \<notin> set (snd (OnCreateAnnouncement sid tx_power cmpl_status m))"
  using assms
  by (simp add: OnCreateAnnouncement_def transition_defs GetAdvertisingSid_def GetBroadcastId_def)

theorem OnCreateAnnouncement_in_CONFIGURING_witness:
  "GetState (run [Call_ProcessMessage START] (CreateInstance example_config)) = Some CONFIGURING
   \<and> GetState (fst (OnCreateAnnouncement 3 0 0x0D
         (run [Call_ProcessMessage START] (CreateInstance example_config)))) = Some STOPPED
   \<and> snd (OnCreateAnnouncement 3 0 0x0D
         (run [Call_ProcessMessage START] (CreateInstance example_config)))
       = [OnStateMachineCreateStatus 1 False, OnStateMachineEvent 1 STOPPED None]
   \<and> GetAdvertisingSid (fst (OnCreateAnnouncement 3 0 0x0D
         (run [Call_ProcessMessage START] (CreateInstance example_config)))) = 0xFF
   \<and> GetState (fst (OnCreateAnnouncement 3 0 0
         (run [Call_ProcessMessage START] (CreateInstance example_config)))) = Some CONFIGURED
   \<and> GetAdvertisingSid (fst (OnCreateAnnouncement 3 0 0
         (run [Call_ProcessMessage START] (CreateInstance example_config)))) = 3"
proof -
  have configuring:
    "GetState (run [Call_ProcessMessage START] (CreateInstance example_config)) = Some CONFIGURING"
    by (simp add: eval_defs)
  show ?thesis
    using configuring
      OnCreateAnnouncement_in_CONFIGURING [OF configuring, of "0x0D" 3 0]
      OnCreateAnnouncement_in_CONFIGURING [OF configuring, of 0 3 0]
    by (simp add: eval_defs)
qed

lemma step_keeps_is_muted: "\<not> is_SetMuted c \<Longrightarrow> is_muted (fst (step c m)) = is_muted m"
proof (cases c)
  case (Call_HandleHciEvent e)
  then show ?thesis
    by (cases e) (simp_all add: handler_defs transition_defs split: option.splits)
qed (simp_all add: handler_defs transition_defs split: option.splits)

lemma run_keeps_is_muted:
  "list_all (\<lambda>c. \<not> is_SetMuted c) cs \<Longrightarrow> is_muted (run cs m) = is_muted m"
  by (induction cs arbitrary: m) (simp_all add: step_keeps_is_muted)

text \<open>
  C8. \<open>SetMuted b\<close> changes the mute flag and nothing else: afterwards \<open>IsMuted\<close> returns
  \<open>b\<close>, and the state, the advertising sid and the BigConfig are as before. The header's
  \<open>SetState\<close> does not change the flag, and no other call does, so the flag survives
  every run without \<open>SetMuted\<close>, in particular a SUSPEND followed by a START that
  reaches STREAMING again.
\<close>

theorem SetMuted_changes_only_the_flag:
  "IsMuted (SetMuted b m) = b
   \<and> SetMuted b m = m\<lparr>is_muted := b\<rparr>
   \<and> GetState (SetMuted b m) = GetState m
   \<and> GetAdvertisingSid (SetMuted b m) = GetAdvertisingSid m
   \<and> GetBigConfig (SetMuted b m) = GetBigConfig m
   \<and> IsMuted (SetState s (SetMuted b m)) = b
   \<and> (\<not> is_SetMuted c \<longrightarrow> IsMuted (fst (step c m)) = IsMuted m)
   \<and> (list_all (\<lambda>c. \<not> is_SetMuted c) cs \<longrightarrow> IsMuted (run cs (SetMuted b m)) = b)"
  by (simp add: IsMuted_def SetMuted_def GetState_raw GetAdvertisingSid_def GetBigConfig_def
      SetState_eq step_keeps_is_muted run_keeps_is_muted)

theorem SetMuted_changes_only_the_flag_witness:
  "GetState (run (example_configure @ example_enable) (CreateInstance example_config))
     = Some STREAMING
   \<and> GetState (run [Call_ProcessMessage SUSPEND]
        (SetMuted True (run (example_configure @ example_enable) (CreateInstance example_config))))
     = Some DISABLING
   \<and> GetState (run (example_suspend @ example_enable_again @ [Call_OnSetupIsoDataPath 0 0x20])
        (SetMuted True (run (example_configure @ example_enable) (CreateInstance example_config))))
     = Some STREAMING
   \<and> IsMuted (run (example_suspend @ example_enable_again @ [Call_OnSetupIsoDataPath 0 0x20])
        (SetMuted True (run (example_configure @ example_enable) (CreateInstance example_config))))"
  using SetMuted_changes_only_the_flag
    [of True "run (example_configure @ example_enable) (CreateInstance example_config)"
      DISABLING "Call_ProcessMessage SUSPEND"
      "example_suspend @ example_enable_again @ [Call_OnSetupIsoDataPath 0 0x20]"]
  by (simp add: eval_defs)

text \<open>
  C6. A stale completion, one whose connection handle, BIG id or advertising sid is not
  the one the machine holds, is discarded: the machine is exactly as before, so neither
  its state nor its BigConfig changes, and nothing is sent, so the owner sees no state
  transition. This holds for the completion of a data-path setup whatever its status, in
  particular for a success for a connection handle of a BIG torn down earlier.
\<close>

theorem stale_completion_discarded:
  "(stale_conn_handle conn_handle m \<longrightarrow>
      step (Call_OnSetupIsoDataPath cmpl_status conn_handle) m = (m, [])
    \<and> GetState (fst (OnSetupIsoDataPath cmpl_status conn_handle m)) = GetState m
    \<and> GetBigConfig (fst (OnSetupIsoDataPath cmpl_status conn_handle m)) = GetBigConfig m
    \<and> snd (OnSetupIsoDataPath cmpl_status conn_handle m) = []
    \<and> step (Call_OnRemoveIsoDataPath cmpl_status conn_handle) m = (m, []))
   \<and> (stale_big_id a_big_id m \<longrightarrow>
      step (Call_HandleHciEvent (BigTerminateComplete cmpl_status a_big_id)) m = (m, []))
   \<and> (stale_advertising_sid sid m \<longrightarrow>
      step (Call_AdvertisingSetRemoved cmpl_status sid) m = (m, []))"
  by (simp add: OnSetupIsoDataPath_def OnRemoveIsoDataPath_def HandleHciEvent_def
      AdvertisingSetRemoved_def)

theorem stale_completion_discarded_witness:
  "GetState (run (example_configure @ example_enable @ example_suspend @ example_enable_again)
       (CreateInstance example_config)) = Some ENABLING
   \<and> GetBigConfig (run (example_configure @ example_enable @ example_suspend @ example_enable_again)
       (CreateInstance example_config)) = Some (example_big 0 2 [0x20])
   \<and> stale_conn_handle 0x10
       (run (example_configure @ example_enable @ example_suspend @ example_enable_again)
         (CreateInstance example_config))
   \<and> step (Call_OnSetupIsoDataPath 0 0x10)
       (run (example_configure @ example_enable @ example_suspend @ example_enable_again)
         (CreateInstance example_config))
     = (run (example_configure @ example_enable @ example_suspend @ example_enable_again)
         (CreateInstance example_config), [])"
proof -
  have stale: "stale_conn_handle 0x10
       (run (example_configure @ example_enable @ example_suspend @ example_enable_again)
         (CreateInstance example_config))"
    by (simp add: eval_defs)
  have held: "GetState (run (example_configure @ example_enable @ example_suspend @ example_enable_again)
       (CreateInstance example_config)) = Some ENABLING
   \<and> GetBigConfig (run (example_configure @ example_enable @ example_suspend @ example_enable_again)
       (CreateInstance example_config)) = Some (example_big 0 2 [0x20])"
    by (simp add: eval_defs)
  from stale held
    stale_completion_discarded [of "0x10"
      "run (example_configure @ example_enable @ example_suspend @ example_enable_again)
         (CreateInstance example_config)" 0]
  show ?thesis
    by blast
qed

section \<open>The BigConfig along every run\<close>
















section \<open>The rollback of an enable attempt\<close>














end
